theory Spec2Isabelle
  imports Main
begin

section \<open>The engine request of the chrome-cdp entry point\<close>

text \<open>
  \<^verbatim>\<open>scrape.ts\<close> declares the request shapes. The fields marked \<^verbatim>\<open>?\<close> there are
  optional: an omitted field is \<open>None\<close>. The entry point
  \<^verbatim>\<open>scrapeURLWithPyripEngineChromeCDP\<close> fills the intersection
  \<^verbatim>\<open>PyripEngineScrapeRequestCommon & PyripEngineScrapeRequestChromeCDP\<close>; the record below
  holds the fields that its object literal writes. The type \<^verbatim>\<open>Action\<close> comes from
  \<^verbatim>\<open>lib/entities\<close>: the two kinds the entry point synthesizes are written out, every other
  kind a caller may supply is \<open>OtherAction\<close>.
\<close>

datatype 'a action =
    Wait (milliseconds: int)
  | Screenshot (fullPage: bool)
  | OtherAction 'a

datatype engine = ChromeCDP | Playwright | TLSClient

record 'a request =
  url :: string
  engine :: engine
  instantReturn :: "bool option"
  skipTlsVerification :: "bool option"
  headers :: "(string \<rightharpoonup> string) option"
  actions :: "'a action list option"
  priority :: "int option"

text \<open>
  What the entry point reads of \<^verbatim>\<open>meta\<close>: \<^verbatim>\<open>meta.url\<close> and, of \<^verbatim>\<open>meta.options\<close>, the fields
  \<^verbatim>\<open>waitFor\<close>, \<^verbatim>\<open>formats\<close>, \<^verbatim>\<open>actions\<close>, \<^verbatim>\<open>skipTlsVerification\<close> and \<^verbatim>\<open>headers\<close>. The selectors
  carry a prefix, since the request has fields of the same names.
\<close>

record 'a options =
  opt_waitFor :: int
  opt_formats :: "string list"
  opt_actions :: "'a action list option"
  opt_skipTlsVerification :: "bool option"
  opt_headers :: "(string \<rightharpoonup> string) option"

record 'a meta =
  meta_url :: string
  meta_options :: "'a options"

text \<open>
  The local \<^verbatim>\<open>actions\<close> of the entry point: three spreads, in this order.
  \<^verbatim>\<open>meta.options.actions ?? []\<close> is the caller's list, or the empty list when there is none.
\<close>

definition chromeCDP_actions :: "'a meta \<Rightarrow> 'a action list" where
  "chromeCDP_actions m =
     (if opt_waitFor (meta_options m) \<noteq> 0
      then [Wait (opt_waitFor (meta_options m))] else [])
     @ (if ''screenshot'' \<in> set (opt_formats (meta_options m))
           \<or> ''screenshot@fullPage'' \<in> set (opt_formats (meta_options m))
        then [Screenshot (''screenshot@fullPage'' \<in> set (opt_formats (meta_options m)))]
        else [])
     @ (case opt_actions (meta_options m) of None \<Rightarrow> [] | Some acts \<Rightarrow> acts)"

text \<open>
  The local \<^verbatim>\<open>request\<close> of the entry point: an object literal whose keys are written in
  this order, \<^verbatim>\<open>actions\<close> by a spread that adds the key only when the list is not empty.
  The fields up to \<^verbatim>\<open>priority\<close> are modelled, and the value written to \<^verbatim>\<open>priority\<close> is a
  parameter.
\<close>

definition chromeCDP_request :: "'a meta \<Rightarrow> int option \<Rightarrow> 'a request" where
  "chromeCDP_request m prio =
     \<lparr> url = meta_url m,
       engine = ChromeCDP,
       instantReturn = Some True,
       skipTlsVerification = opt_skipTlsVerification (meta_options m),
       headers = opt_headers (meta_options m),
       actions = (if length (chromeCDP_actions m) > 0
                  then Some (chromeCDP_actions m) else None),
       priority = prio \<rparr>"

section \<open>Dispatch and the polling cycle\<close>

text \<open>
  \<^verbatim>\<open>pyripEngineScrape\<close> answers with \<^verbatim>\<open>{ jobId, processing }\<close> or throws what the transport
  threw. \<^verbatim>\<open>pyripEngineCheckStatus\<close> returns the final status, or throws a
  \<^verbatim>\<open>StillProcessingError\<close>, an \<^verbatim>\<open>EngineError\<close> or anything else.
\<close>

record job_handle =
  jobId :: string
  processing :: bool

datatype ('r, 'x) check_status =
    Status 'r
  | StillProcessingError
  | EngineError 'x
  | OtherError 'x

text \<open>
  The remote engine and the clock are the environment of a polling cycle. The \<open>k\<close>-th
  status query (counted from 0) for a job yields \<open>pyripEngineCheckStatus w job k\<close> after
  \<open>query_ms w k\<close> milliseconds; the timer that follows it fires \<open>timer_lag w k\<close>
  milliseconds after the 250 it was set to (a timer never fires early). \<open>clock0 w\<close> is
  what \<^verbatim>\<open>Date.now()\<close> reads when the dispatch has returned. Durations and clock readings
  are whole milliseconds.
\<close>

record ('q, 'r, 'x) world =
  pyripEngineScrape :: "'q \<Rightarrow> 'x + job_handle"
  pyripEngineCheckStatus :: "string \<Rightarrow> nat \<Rightarrow> ('r, 'x) check_status"
  query_ms :: "nat \<Rightarrow> nat"
  timer_lag :: "nat \<Rightarrow> nat"
  clock0 :: nat

text \<open>What the cycle does to its environment, in order.\<close>

datatype event = StatusQuery string | Delay nat

text \<open>
  The variables of the loop (\<^verbatim>\<open>errors\<close>, \<^verbatim>\<open>status\<close>), the clock, the number of status
  queries issued so far and the events so far.
\<close>

record ('r, 'x) poll_state =
  now :: nat
  errors :: "'x list"
  status :: "'r option"
  polls :: nat
  trace :: "event list"

text \<open>How \<^verbatim>\<open>performPyripEngineScrape\<close> ends: it returns the status or throws.\<close>

datatype ('r, 'x) outcome =
    Return 'r
  | ThrowErrorLimit "'x list"
  | ThrowTimeoutError "'x list" int
  | ThrowEngineError 'x
  | ThrowDispatchError 'x

definition defaultTimeout :: int where
  "defaultTimeout = 10000"

definition errorLimit :: nat where
  "errorLimit = 3"

text \<open>The status query of one iteration: the clock advances, the query is counted.\<close>

definition query :: "('q, 'r, 'x) world \<Rightarrow> string \<Rightarrow> ('r, 'x) poll_state \<Rightarrow> ('r, 'x) poll_state" where
  "query w job s =
     s\<lparr> now := now s + query_ms w (polls s),
        polls := Suc (polls s),
        trace := trace s @ [StatusQuery job] \<rparr>"

text \<open>\<^verbatim>\<open>await new Promise((resolve) => setTimeout(resolve, 250))\<close>, the last statement of the body.\<close>

definition sleep :: "('q, 'r, 'x) world \<Rightarrow> ('r, 'x) poll_state \<Rightarrow> ('r, 'x) poll_state" where
  "sleep w s =
     s\<lparr> now := now s + 250 + timer_lag w (polls s - 1),
        trace := trace s @ [Delay 250] \<rparr>"

text \<open>
  The \<^verbatim>\<open>while (status === undefined)\<close> loop, its body in the order of the source:
  \<^item> \<^verbatim>\<open>errors.length >= errorLimit\<close> throws an \<^verbatim>\<open>Error\<close> whose cause holds \<^verbatim>\<open>errors\<close>;
  \<^item> \<^verbatim>\<open>Date.now() - startTime > timeout\<close> throws a \<^verbatim>\<open>TimeoutError\<close> whose cause holds
    \<^verbatim>\<open>errors\<close> and \<^verbatim>\<open>timeout\<close>;
  \<^item> the status query, in \<^verbatim>\<open>try\<close>/\<^verbatim>\<open>catch\<close>: the status returned is assigned to
    \<^verbatim>\<open>status\<close>, a \<^verbatim>\<open>StillProcessingError\<close> is logged, an \<^verbatim>\<open>EngineError\<close> is rethrown, anything
    else is pushed onto \<^verbatim>\<open>errors\<close>;
  \<^item> the delay, after the \<^verbatim>\<open>try\<close>/\<^verbatim>\<open>catch\<close>: every branch but the rethrow reaches it, the
    one that assigned \<^verbatim>\<open>status\<close> too, and the loop condition is tested after it.

  \<open>timeout\<close> is the number the caller passes, in milliseconds; nothing checks its sign, so
  it is an \<open>int\<close> (a caller that omits it gets \<open>defaultTimeout\<close>). The clock readings are
  natural numbers and their difference is taken in \<open>int\<close>, as the source's subtraction
  is. The recursion ends because every iteration that goes on has spent 250 ms or more.
\<close>

function poll ::
  "('q, 'r, 'x) world \<Rightarrow> nat \<Rightarrow> int \<Rightarrow> string \<Rightarrow> ('r, 'x) poll_state
     \<Rightarrow> ('r, 'x) outcome \<times> ('r, 'x) poll_state" where
  "poll w startTime timeout job s =
     (case status s of
        Some st \<Rightarrow> (Return st, s)
      | None \<Rightarrow>
          if errorLimit \<le> length (errors s) then (ThrowErrorLimit (errors s), s)
          else if timeout < int (now s) - int startTime then (ThrowTimeoutError (errors s) timeout, s)
          else
            (case pyripEngineCheckStatus w job (polls s) of
               Status st \<Rightarrow>
                 poll w startTime timeout job (sleep w ((query w job s)\<lparr>status := Some st\<rparr>))
             | StillProcessingError \<Rightarrow>
                 poll w startTime timeout job (sleep w (query w job s))
             | EngineError e \<Rightarrow> (ThrowEngineError e, query w job s)
             | OtherError e \<Rightarrow>
                 poll w startTime timeout job
                   (sleep w ((query w job s)\<lparr>errors := errors (query w job s) @ [e]\<rparr>))))"
  by pat_completeness auto
termination
  by (relation "measure (\<lambda>(w, startTime, timeout, job, s).
         nat (int startTime + timeout + 1 - int (now s)))")
     (auto simp: sleep_def query_def)

declare poll.simps [simp del]

text \<open>
  \<^verbatim>\<open>performPyripEngineScrape\<close>: the dispatch, whose error is thrown on as it is, then the
  loop. \<^verbatim>\<open>startTime\<close> is read when the dispatch has returned and the first test of the loop
  follows with no \<^verbatim>\<open>await\<close> between them: both read \<open>clock0 w\<close>, so the first test of the
  timeout is \<open>timeout < 0\<close>. The \<^verbatim>\<open>processing\<close> field of
  the response is not read; the logger and \<^verbatim>\<open>Sentry.captureException\<close> do not affect the
  control flow and are left out.
\<close>

definition initial :: "('q, 'r, 'x) world \<Rightarrow> ('r, 'x) poll_state" where
  "initial w = \<lparr> now = clock0 w, errors = [], status = None, polls = 0, trace = [] \<rparr>"

definition performPyripEngineScrape ::
  "('q, 'r, 'x) world \<Rightarrow> 'q \<Rightarrow> int \<Rightarrow> ('r, 'x) outcome \<times> ('r, 'x) poll_state" where
  "performPyripEngineScrape w request timeout =
     (case pyripEngineScrape w request of
        Inl err \<Rightarrow> (ThrowDispatchError err, initial w)
      | Inr scrape \<Rightarrow> poll w (clock0 w) timeout (jobId scrape) (initial w))"

text \<open>
  The states in which an iteration gets as far as its status query: the loop is still
  running, the error limit is not reached and the timeout has not passed.
\<close>

definition polling :: "nat \<Rightarrow> int \<Rightarrow> ('r, 'x) poll_state \<Rightarrow> bool" where
  "polling startTime timeout s \<longleftrightarrow>
     status s = None \<and> length (errors s) < errorLimit \<and> \<not> timeout < int (now s) - int startTime"

text \<open>The one exit taken from inside the \<^verbatim>\<open>catch\<close> block: the rethrown \<^verbatim>\<open>EngineError\<close>.\<close>

fun fatal :: "('r, 'x) outcome \<Rightarrow> bool" where
  "fatal (ThrowEngineError e) = True"
| "fatal _ = False"

section \<open>Concrete environments\<close>

text \<open>
  An engine that accepts every request as job \<open>job-1\<close>, answers the status queries from
  a list and reports \<^verbatim>\<open>StillProcessingError\<close> once the list is used up. Every status query
  takes \<open>ms\<close> milliseconds, timers fire on time, and the clock reads 1000 at the start.
\<close>

definition scripted :: "('r, 'x) check_status list \<Rightarrow> nat \<Rightarrow> (unit, 'r, 'x) world" where
  "scripted rs ms =
     \<lparr> pyripEngineScrape = (\<lambda>_. Inr \<lparr> jobId = ''job-1'', processing = False \<rparr>),
       pyripEngineCheckStatus = (\<lambda>_ k. if k < length rs then rs ! k else StillProcessingError),
       query_ms = (\<lambda>_. ms),
       timer_lag = (\<lambda>_. 0),
       clock0 = 1000 \<rparr>"

text \<open>States of the loop between two iterations, for the examples below.\<close>

definition glitched :: "(string, string) poll_state" where
  "glitched = \<lparr> now = 9000, errors = [''reset'', ''reset'', ''bad json''], status = None,
                polls = 5, trace = [] \<rparr>"

definition one_glitch :: "(string, string) poll_state" where
  "one_glitch = \<lparr> now = 1260, errors = [''reset''], status = None, polls = 1,
                  trace = [StatusQuery ''job-1'', Delay 250] \<rparr>"

definition late :: "(string, string) poll_state" where
  "late = \<lparr> now = 2300, errors = [''reset''], status = None, polls = 5, trace = [] \<rparr>"

text \<open>Three callers of the chrome-cdp entry point.\<close>

definition shot_meta :: "string meta" where
  "shot_meta = \<lparr> meta_url = ''https://example.com'',
      meta_options = \<lparr> opt_waitFor = 500, opt_formats = [''markdown'', ''screenshot''],
        opt_actions = Some [OtherAction ''click #more''],
        opt_skipTlsVerification = Some False, opt_headers = None \<rparr> \<rparr>"

definition wait_meta :: "string meta" where
  "wait_meta = \<lparr> meta_url = ''https://example.com'',
      meta_options = \<lparr> opt_waitFor = 500, opt_formats = [''markdown''],
        opt_actions = Some [OtherAction ''click #more'', Wait 100],
        opt_skipTlsVerification = Some False, opt_headers = None \<rparr> \<rparr>"

definition plain_meta :: "string meta" where
  "plain_meta = \<lparr> meta_url = ''https://example.com'',
      meta_options = \<lparr> opt_waitFor = 0, opt_formats = [''markdown''],
        opt_actions = None,
        opt_skipTlsVerification = Some False, opt_headers = None \<rparr> \<rparr>"

section \<open>One iteration of the loop\<close>

lemma poll_done: "status s = Some st \<Longrightarrow> poll w startTime timeout job s = (Return st, s)"
  by (subst poll.simps) simp

lemma poll_limit:
  "status s = None \<Longrightarrow> errorLimit \<le> length (errors s) \<Longrightarrow>
   poll w startTime timeout job s = (ThrowErrorLimit (errors s), s)"
  by (subst poll.simps) simp

lemma poll_timeout:
  "status s = None \<Longrightarrow> length (errors s) < errorLimit \<Longrightarrow> timeout < int (now s) - int startTime \<Longrightarrow>
   poll w startTime timeout job s = (ThrowTimeoutError (errors s) timeout, s)"
  by (subst poll.simps) simp

lemma poll_success:
  "polling startTime timeout s \<Longrightarrow> pyripEngineCheckStatus w job (polls s) = Status st \<Longrightarrow>
   poll w startTime timeout job s =
     (Return st, sleep w ((query w job s)\<lparr>status := Some st\<rparr>))"
  by (subst poll.simps, simp add: polling_def) (simp add: poll_done sleep_def)

lemma poll_still:
  "polling startTime timeout s \<Longrightarrow>
   pyripEngineCheckStatus w job (polls s) = StillProcessingError \<Longrightarrow>
   poll w startTime timeout job s = poll w startTime timeout job (sleep w (query w job s))"
  by (subst poll.simps) (simp add: polling_def)

lemma poll_engine:
  "polling startTime timeout s \<Longrightarrow> pyripEngineCheckStatus w job (polls s) = EngineError e \<Longrightarrow>
   poll w startTime timeout job s = (ThrowEngineError e, query w job s)"
  by (subst poll.simps) (simp add: polling_def)

lemma poll_other:
  "polling startTime timeout s \<Longrightarrow> pyripEngineCheckStatus w job (polls s) = OtherError e \<Longrightarrow>
   poll w startTime timeout job s =
     poll w startTime timeout job (sleep w ((query w job s)\<lparr>errors := errors s @ [e]\<rparr>))"
  by (subst poll.simps) (simp add: polling_def query_def)

lemma polling_initial: "0 \<le> timeout \<Longrightarrow> polling (clock0 w) timeout (initial w)"
  by (simp add: polling_def initial_def errorLimit_def)

section \<open>Whole runs of the loop\<close>

lemma poll_always_still:
  assumes still: "\<forall>k. pyripEngineCheckStatus w job k = StillProcessingError"
  shows "status s = None \<Longrightarrow> errors s = [] \<Longrightarrow>
         fst (poll w startTime timeout job s) = ThrowTimeoutError [] timeout"
  using still
proof (induction w startTime timeout job s rule: poll.induct)
  case (1 w startTime timeout job s)
  show ?case
  proof (cases "timeout < int (now s) - int startTime")
    case True
    with "1.prems" show ?thesis by (simp add: poll_timeout errorLimit_def)
  next
    case False
    with "1.prems" have p: "polling startTime timeout s"
      by (simp add: polling_def errorLimit_def)
    have q: "pyripEngineCheckStatus w job (polls s) = StillProcessingError"
      using "1.prems"(3) by blast
    have "fst (poll w startTime timeout job (sleep w (query w job s)))
            = ThrowTimeoutError [] timeout"
      using "1.IH"(2)[OF _ _ _ q] p "1.prems" by (simp add: polling_def sleep_def query_def)
    then show ?thesis by (simp add: poll_still[OF p q])
  qed
qed

lemma poll_stopped:
  "\<not> polling startTime timeout s \<Longrightarrow>
   snd (poll w startTime timeout job s) = s \<and> \<not> fatal (fst (poll w startTime timeout job s))"
  by (subst (1 2) poll.simps) (auto simp: polling_def split: option.splits)

lemma poll_polls_fatal:
  "polls s + (if fatal (fst (poll w startTime timeout job s)) then 1 else 0)
     \<le> polls (snd (poll w startTime timeout job s))"
proof (induction w startTime timeout job s rule: poll.induct)
  case (1 w startTime timeout job s)
  show ?case
  proof (cases "polling startTime timeout s")
    case False
    then show ?thesis by (simp add: poll_stopped)
  next
    case True
    then have c: "status s = None" "\<not> errorLimit \<le> length (errors s)"
        "\<not> timeout < int (now s) - int startTime"
      by (simp_all add: polling_def)
    show ?thesis
    proof (cases "pyripEngineCheckStatus w job (polls s)")
      case (Status st)
      then show ?thesis by (simp add: poll_success[OF True] sleep_def query_def)
    next
      case StillProcessingError
      from "1.IH"(2)[OF c StillProcessingError] show ?thesis
        by (simp add: poll_still[OF True StillProcessingError] sleep_def query_def split: if_splits)
    next
      case (EngineError e)
      then show ?thesis by (simp add: poll_engine[OF True] query_def)
    next
      case (OtherError e)
      from "1.IH"(3)[OF c OtherError] show ?thesis
        by (simp add: poll_other[OF True OtherError] sleep_def query_def split: if_splits)
    qed
  qed
qed

lemma poll_trace:
  "trace (snd (poll w startTime timeout job s)) =
     trace s
     @ concat (replicate
         (polls (snd (poll w startTime timeout job s)) - polls s
            - (if fatal (fst (poll w startTime timeout job s)) then 1 else 0))
         [StatusQuery job, Delay 250])
     @ (if fatal (fst (poll w startTime timeout job s)) then [StatusQuery job] else [])"
proof (induction w startTime timeout job s rule: poll.induct)
  case (1 w startTime timeout job s)
  show ?case
  proof (cases "polling startTime timeout s")
    case False
    then show ?thesis by (simp add: poll_stopped)
  next
    case True
    then have c: "status s = None" "\<not> errorLimit \<le> length (errors s)"
        "\<not> timeout < int (now s) - int startTime"
      by (simp_all add: polling_def)
    have step: ?thesis
      if a: "trace (snd (poll w startTime timeout job s')) =
        trace s' @ concat (replicate
         (polls (snd (poll w startTime timeout job s')) - polls s'
            - (if fatal (fst (poll w startTime timeout job s')) then 1 else 0))
         [StatusQuery job, Delay 250])
        @ (if fatal (fst (poll w startTime timeout job s')) then [StatusQuery job] else [])"
        and t: "trace s' = trace s @ [StatusQuery job, Delay 250]"
        and p: "polls s' = Suc (polls s)"
        and e: "poll w startTime timeout job s = poll w startTime timeout job s'" for s'
    proof -
      let ?r = "poll w startTime timeout job s'"
      let ?f = "if fatal (fst ?r) then 1 else (0::nat)"
      have m: "Suc (polls s) + ?f \<le> polls (snd ?r)"
        using poll_polls_fatal[of s' w startTime timeout job] p by simp
      then have "polls (snd ?r) - polls s - ?f = Suc (polls (snd ?r) - Suc (polls s) - ?f)"
        by arith
      then have "concat (replicate (polls (snd ?r) - polls s - ?f) [StatusQuery job, Delay 250])
          = [StatusQuery job, Delay 250]
            @ concat (replicate (polls (snd ?r) - polls s' - ?f) [StatusQuery job, Delay 250])"
        by (simp add: p)
      with a t show ?thesis unfolding e by simp
    qed
    show ?thesis
    proof (cases "pyripEngineCheckStatus w job (polls s)")
      case (Status st)
      show ?thesis
        by (rule step[OF "1.IH"(1)[OF c Status]])
           (simp_all add: sleep_def query_def poll_success[OF True Status] poll_done)
    next
      case StillProcessingError
      show ?thesis
        by (rule step[OF "1.IH"(2)[OF c StillProcessingError]])
           (simp_all add: sleep_def query_def poll_still[OF True StillProcessingError])
    next
      case (EngineError e)
      then show ?thesis by (simp add: poll_engine[OF True] query_def)
    next
      case (OtherError e)
      show ?thesis
        by (rule step[OF "1.IH"(3)[OF c OtherError]])
           (simp_all add: sleep_def query_def poll_other[OF True OtherError])
    qed
  qed
qed

lemma poll_world_cong:
  assumes "pyripEngineCheckStatus w = pyripEngineCheckStatus w'"
    and "query_ms w = query_ms w'" and "timer_lag w = timer_lag w'"
  shows "poll w startTime timeout job s = poll w' startTime timeout job s"
  using assms
proof (induction w startTime timeout job s rule: poll.induct)
  case (1 w startTime timeout job s)
  have q: "query w job s = query w' job s" using "1.prems" by (simp add: query_def)
  have sl: "sleep w = sleep w'" using "1.prems" by (simp add: sleep_def fun_eq_iff)
  have qe: "errors (query w' job s) = errors s" by (simp add: query_def)
  show ?case
  proof (cases "polling startTime timeout s")
    case False
    then show ?thesis
      by (subst (1 2) poll.simps) (auto simp: polling_def split: option.splits)
  next
    case True
    then have c: "status s = None" "\<not> errorLimit \<le> length (errors s)"
        "\<not> timeout < int (now s) - int startTime"
      by (simp_all add: polling_def)
    show ?thesis
    proof (cases "pyripEngineCheckStatus w job (polls s)")
      case (Status st)
      then have "pyripEngineCheckStatus w' job (polls s) = Status st" using "1.prems" by simp
      with Status show ?thesis by (simp add: poll_success[OF True] q sl)
    next
      case StillProcessingError
      then have r: "pyripEngineCheckStatus w' job (polls s) = StillProcessingError"
        using "1.prems" by simp
      from "1.IH"(2)[OF c StillProcessingError "1.prems"] show ?thesis
        by (simp add: poll_still[OF True StillProcessingError] poll_still[OF True r] q sl)
    next
      case (EngineError e)
      then have "pyripEngineCheckStatus w' job (polls s) = EngineError e" using "1.prems" by simp
      with EngineError show ?thesis by (simp add: poll_engine[OF True] q)
    next
      case (OtherError e)
      then have r: "pyripEngineCheckStatus w' job (polls s) = OtherError e"
        using "1.prems" by simp
      from "1.IH"(3)[OF c OtherError "1.prems"] show ?thesis
        by (simp add: poll_other[OF True OtherError] poll_other[OF True r] q sl qe)
    qed
  qed
qed

lemma poll_first_query:
  assumes "polling startTime timeout s"
  shows "Suc (polls s) \<le> polls (snd (poll w startTime timeout job s))"
proof (cases "pyripEngineCheckStatus w job (polls s)")
  case (Status st)
  then show ?thesis by (simp add: poll_success[OF assms] sleep_def query_def)
next
  case StillProcessingError
  show ?thesis
    using poll_polls_fatal[of "sleep w (query w job s)" w startTime timeout job]
    by (simp add: poll_still[OF assms StillProcessingError] sleep_def query_def split: if_splits)
next
  case (EngineError e)
  then show ?thesis by (simp add: poll_engine[OF assms] query_def)
next
  case (OtherError e)
  show ?thesis
    using poll_polls_fatal[of "sleep w ((query w job s)\<lparr>errors := errors s @ [e]\<rparr>)"
        w startTime timeout job]
    by (simp add: poll_other[OF assms OtherError] sleep_def query_def split: if_splits)
qed

section \<open>Runs with the first answers given\<close>





lemma run_engine_first:
  assumes "pyripEngineScrape w request = Inr h"
    and "pyripEngineCheckStatus w (jobId h) 0 = EngineError e"
    and "0 \<le> timeout"
  shows "performPyripEngineScrape w request timeout =
       (ThrowEngineError e,
        \<lparr> now = clock0 w + query_ms w 0, errors = [], status = None, polls = 1,
          trace = [StatusQuery (jobId h)] \<rparr>)"
  using assms unfolding performPyripEngineScrape_def
  apply (simp add: initial_def)
  apply (subst poll.simps, simp add: errorLimit_def query_def)
  done

lemma run_still_other_status:
  assumes "pyripEngineScrape w request = Inr h"
    and "pyripEngineCheckStatus w (jobId h) 0 = StillProcessingError"
    and "pyripEngineCheckStatus w (jobId h) 1 = OtherError x"
    and "pyripEngineCheckStatus w (jobId h) 2 = Status r"
    and "int (query_ms w 0 + 250 + timer_lag w 0 + (query_ms w 1 + 250 + timer_lag w 1))
           \<le> timeout"
  shows "performPyripEngineScrape w request timeout =
       (Return r,
        \<lparr> now = clock0 w + (query_ms w 0 + 250 + timer_lag w 0)
                  + (query_ms w 1 + 250 + timer_lag w 1) + (query_ms w 2 + 250 + timer_lag w 2),
          errors = [x], status = Some r, polls = 3,
          trace = [StatusQuery (jobId h), Delay 250, StatusQuery (jobId h), Delay 250,
                   StatusQuery (jobId h), Delay 250] \<rparr>)"
  using assms unfolding performPyripEngineScrape_def
  apply (simp add: initial_def)
  apply (subst poll.simps, simp add: errorLimit_def query_def sleep_def numeral_2_eq_2)
  apply (subst poll.simps, simp add: errorLimit_def query_def sleep_def numeral_2_eq_2)
  apply (subst poll.simps, simp add: errorLimit_def query_def sleep_def numeral_2_eq_2)
  apply (subst poll.simps, simp add: errorLimit_def query_def sleep_def numeral_2_eq_2 numeral_3_eq_3)
  done

section \<open>The claims\<close>

text \<open>
  C1. In every iteration the error limit is checked before the timeout: in a state of the
  running loop (\<open>status s = None\<close>) that has collected 3 or more errors, the cycle ends
  with the error-limit throw, carrying all of \<open>errors s\<close>, and issues no further query.
  Nothing is assumed about the clock, so this holds as well when
  \<open>timeout < int (now s) - int startTime\<close>, as in the example that follows.
\<close>

theorem ceiling_before_timeout:
  assumes "status s = None" and "3 \<le> length (errors s)"
  shows "poll w startTime timeout job s = (ThrowErrorLimit (errors s), s)"
  using assms by (simp add: poll_limit errorLimit_def)

theorem ceiling_before_timeout_witness:
  "(1000::int) < int (now glitched) - int 1000
   \<and> poll (scripted [] 0 :: (unit, string, string) world) 1000 1000 ''job-1'' glitched
       = (ThrowErrorLimit [''reset'', ''reset'', ''bad json''], glitched)"
  using ceiling_before_timeout[of glitched "scripted [] 0" 1000 1000 "''job-1''"]
  by (simp add: glitched_def)

text \<open>
  C2. Whenever a status query throws an \<^verbatim>\<open>EngineError\<close>, the cycle ends at once by
  rethrowing that same error: whatever the number of errors collected so far (below the
  limit, or there would be no query), the list of errors is left as it was and the query is
  the last event, with no delay after it. In particular, when the first status query throws
  an \<^verbatim>\<open>EngineError\<close>, the attempt ends with it, after one query and with no error recorded
  (the first status query is issued when the timeout is not negative).
\<close>

theorem engine_failure_fatal:
  "(status s = None \<and> length (errors s) < 3 \<and> \<not> timeout < int (now s) - int startTime
      \<and> pyripEngineCheckStatus w job (polls s) = EngineError e
    \<longrightarrow> poll w startTime timeout job s = (ThrowEngineError e, query w job s)
        \<and> errors (query w job s) = errors s
        \<and> trace (query w job s) = trace s @ [StatusQuery job])
   \<and> (pyripEngineScrape w' request = Inr h \<and> 0 \<le> timeout'
      \<and> pyripEngineCheckStatus w' (jobId h) 0 = EngineError e'
    \<longrightarrow> performPyripEngineScrape w' request timeout' =
         (ThrowEngineError e',
          \<lparr> now = clock0 w' + query_ms w' 0, errors = [], status = None, polls = 1,
            trace = [StatusQuery (jobId h)] \<rparr>))"
proof (intro conjI impI)
  assume a: "status s = None \<and> length (errors s) < 3 \<and> \<not> timeout < int (now s) - int startTime
      \<and> pyripEngineCheckStatus w job (polls s) = EngineError e"
  then have "polling startTime timeout s" by (simp add: polling_def errorLimit_def)
  with a show "poll w startTime timeout job s = (ThrowEngineError e, query w job s)"
    by (simp add: poll_engine)
  show "errors (query w job s) = errors s" by (simp add: query_def)
  show "trace (query w job s) = trace s @ [StatusQuery job]" by (simp add: query_def)
next
  assume "pyripEngineScrape w' request = Inr h \<and> 0 \<le> timeout'
      \<and> pyripEngineCheckStatus w' (jobId h) 0 = EngineError e'"
  then show "performPyripEngineScrape w' request timeout' =
         (ThrowEngineError e',
          \<lparr> now = clock0 w' + query_ms w' 0, errors = [], status = None, polls = 1,
            trace = [StatusQuery (jobId h)] \<rparr>)"
    by (simp add: run_engine_first)
qed

theorem engine_failure_fatal_witness:
  "poll (scripted [OtherError ''reset'', EngineError ''render crashed''] 10
          :: (unit, string, string) world) 1000 10000 ''job-1'' one_glitch
     = (ThrowEngineError ''render crashed'',
        \<lparr> now = 1270, errors = [''reset''], status = None, polls = 2,
          trace = [StatusQuery ''job-1'', Delay 250, StatusQuery ''job-1''] \<rparr>)
   \<and> performPyripEngineScrape
        (scripted [EngineError ''render crashed''] 10 :: (unit, string, string) world) () 10000
     = (ThrowEngineError ''render crashed'',
        \<lparr> now = 1010, errors = [], status = None, polls = 1,
          trace = [StatusQuery ''job-1''] \<rparr>)"
proof -
  let ?w = "scripted [OtherError ''reset'', EngineError ''render crashed''] 10
              :: (unit, string, string) world"
  let ?w' = "scripted [EngineError ''render crashed''] 10 :: (unit, string, string) world"
  have h: "status one_glitch = None \<and> length (errors one_glitch) < 3
      \<and> \<not> 10000 < int (now one_glitch) - int 1000
      \<and> pyripEngineCheckStatus ?w ''job-1'' (polls one_glitch) = EngineError ''render crashed''"
    by (simp add: one_glitch_def scripted_def)
  have h': "pyripEngineScrape ?w' () = Inr \<lparr> jobId = ''job-1'', processing = False \<rparr>
      \<and> (0::int) \<le> 10000
      \<and> pyripEngineCheckStatus ?w' (jobId \<lparr> jobId = ''job-1'', processing = False \<rparr>) 0
          = EngineError ''render crashed''"
    by (simp add: scripted_def)
  have q: "query ?w ''job-1'' one_glitch =
      \<lparr> now = 1270, errors = [''reset''], status = None, polls = 2,
        trace = [StatusQuery ''job-1'', Delay 250, StatusQuery ''job-1''] \<rparr>"
    by (simp add: query_def one_glitch_def scripted_def)
  have c: "clock0 ?w' + query_ms ?w' 0 = 1010" by (simp add: scripted_def)
  from engine_failure_fatal[of one_glitch 10000 1000 ?w "''job-1''" "''render crashed''"
      ?w' "()" "\<lparr> jobId = ''job-1'', processing = False \<rparr>" 10000 "''render crashed''"] h h'
  show ?thesis unfolding q c by simp
qed



text \<open>
  C4. In a state of the running loop with fewer than 3 errors in which the time elapsed
  since \<open>startTime\<close> exceeds the timeout, the cycle ends with the \<^verbatim>\<open>TimeoutError\<close>, which
  carries the errors collected so far and the timeout. And when every status query throws
  \<^verbatim>\<open>StillProcessingError\<close>, the attempt ends with the \<^verbatim>\<open>TimeoutError\<close> and an empty list of
  errors (the function is total, so the attempt does end).
\<close>

theorem timeout_when_elapsed:
  "(status s = None \<and> length (errors s) < 3 \<and> timeout < int (now s) - int startTime
    \<longrightarrow> poll w startTime timeout job s = (ThrowTimeoutError (errors s) timeout, s))
   \<and> (pyripEngineScrape w' request = Inr h
      \<and> (\<forall>k. pyripEngineCheckStatus w' (jobId h) k = StillProcessingError)
    \<longrightarrow> fst (performPyripEngineScrape w' request timeout') = ThrowTimeoutError [] timeout')"
proof (intro conjI impI)
  assume "status s = None \<and> length (errors s) < 3 \<and> timeout < int (now s) - int startTime"
  then show "poll w startTime timeout job s = (ThrowTimeoutError (errors s) timeout, s)"
    by (simp add: poll_timeout errorLimit_def)
next
  assume a: "pyripEngineScrape w' request = Inr h
      \<and> (\<forall>k. pyripEngineCheckStatus w' (jobId h) k = StillProcessingError)"
  then have "fst (poll w' (clock0 w') timeout' (jobId h) (initial w'))
      = ThrowTimeoutError [] timeout'"
    by (intro poll_always_still) (simp_all add: initial_def)
  with a show "fst (performPyripEngineScrape w' request timeout') = ThrowTimeoutError [] timeout'"
    by (simp add: performPyripEngineScrape_def)
qed

theorem timeout_when_elapsed_witness:
  "poll (scripted [] 10 :: (unit, string, string) world) 1000 1000 ''job-1'' late
     = (ThrowTimeoutError [''reset''] 1000, late)
   \<and> fst (performPyripEngineScrape (scripted [] 0 :: (unit, string, string) world) () 1000)
     = ThrowTimeoutError [] 1000"
proof -
  let ?w = "scripted [] 10 :: (unit, string, string) world"
  let ?w' = "scripted [] 0 :: (unit, string, string) world"
  have h: "status late = None \<and> length (errors late) < 3
      \<and> 1000 < int (now late) - int 1000"
    by (simp add: late_def)
  have h': "pyripEngineScrape ?w' () = Inr \<lparr> jobId = ''job-1'', processing = False \<rparr>
      \<and> (\<forall>k. pyripEngineCheckStatus ?w' (jobId \<lparr> jobId = ''job-1'', processing = False \<rparr>) k
            = StillProcessingError)"
    by (simp add: scripted_def)
  have e: "errors late = [''reset'']" by (simp add: late_def)
  from timeout_when_elapsed[of late 1000 1000 ?w "''job-1''" ?w' "()"
      "\<lparr> jobId = ''job-1'', processing = False \<rparr>" 1000] h h'
  show ?thesis unfolding e by simp
qed

text \<open>
  C5. A \<^verbatim>\<open>StillProcessingError\<close> records no error and leaves the loop running: the cycle
  goes on from the state after the query and the delay, whose errors are those of before
  and whose status is still undefined. Consequently, when the first three status queries
  yield \<^verbatim>\<open>StillProcessingError\<close>, an unexpected error \<open>x\<close> and the status \<open>r\<close>, and the
  timeout has not passed when the second and the third iteration start, the attempt
  returns \<open>r\<close> and has recorded exactly the one error \<open>x\<close>.
\<close>

theorem still_processing_is_no_anomaly:
  "(status s = None \<and> length (errors s) < 3 \<and> \<not> timeout < int (now s) - int startTime
      \<and> pyripEngineCheckStatus w job (polls s) = StillProcessingError
    \<longrightarrow> poll w startTime timeout job s
          = poll w startTime timeout job (sleep w (query w job s))
        \<and> errors (sleep w (query w job s)) = errors s
        \<and> status (sleep w (query w job s)) = None)
   \<and> (pyripEngineScrape w' request = Inr h
      \<and> pyripEngineCheckStatus w' (jobId h) 0 = StillProcessingError
      \<and> pyripEngineCheckStatus w' (jobId h) 1 = OtherError x
      \<and> pyripEngineCheckStatus w' (jobId h) 2 = Status r
      \<and> int (query_ms w' 0 + 250 + timer_lag w' 0 + (query_ms w' 1 + 250 + timer_lag w' 1))
          \<le> timeout'
    \<longrightarrow> fst (performPyripEngineScrape w' request timeout') = Return r
        \<and> errors (snd (performPyripEngineScrape w' request timeout')) = [x])"
proof (intro conjI impI)
  assume a: "status s = None \<and> length (errors s) < 3 \<and> \<not> timeout < int (now s) - int startTime
      \<and> pyripEngineCheckStatus w job (polls s) = StillProcessingError"
  then have "polling startTime timeout s" by (simp add: polling_def errorLimit_def)
  with a show "poll w startTime timeout job s
      = poll w startTime timeout job (sleep w (query w job s))"
    by (simp add: poll_still)
  show "errors (sleep w (query w job s)) = errors s" by (simp add: sleep_def query_def)
  from a show "status (sleep w (query w job s)) = None" by (simp add: sleep_def query_def)
next
  assume a: "pyripEngineScrape w' request = Inr h
      \<and> pyripEngineCheckStatus w' (jobId h) 0 = StillProcessingError
      \<and> pyripEngineCheckStatus w' (jobId h) 1 = OtherError x
      \<and> pyripEngineCheckStatus w' (jobId h) 2 = Status r
      \<and> int (query_ms w' 0 + 250 + timer_lag w' 0 + (query_ms w' 1 + 250 + timer_lag w' 1))
          \<le> timeout'"
  then have r: "performPyripEngineScrape w' request timeout' =
       (Return r,
        \<lparr> now = clock0 w' + (query_ms w' 0 + 250 + timer_lag w' 0)
                  + (query_ms w' 1 + 250 + timer_lag w' 1)
                  + (query_ms w' 2 + 250 + timer_lag w' 2),
          errors = [x], status = Some r, polls = 3,
          trace = [StatusQuery (jobId h), Delay 250, StatusQuery (jobId h), Delay 250,
                   StatusQuery (jobId h), Delay 250] \<rparr>)"
    by (intro run_still_other_status) simp_all
  show "fst (performPyripEngineScrape w' request timeout') = Return r" by (simp add: r)
  show "errors (snd (performPyripEngineScrape w' request timeout')) = [x]" by (simp add: r)
qed

theorem still_processing_is_no_anomaly_witness:
  "poll (scripted [OtherError ''reset'', StillProcessingError, Status ''<html>''] 10
          :: (unit, string, string) world) 1000 10000 ''job-1'' one_glitch
     = poll (scripted [OtherError ''reset'', StillProcessingError, Status ''<html>''] 10)
         1000 10000 ''job-1''
         \<lparr> now = 1520, errors = [''reset''], status = None, polls = 2,
           trace = [StatusQuery ''job-1'', Delay 250, StatusQuery ''job-1'', Delay 250] \<rparr>
   \<and> fst (performPyripEngineScrape
        (scripted [StillProcessingError, OtherError ''reset'', Status ''<html>''] 10
           :: (unit, string, string) world) () 10000) = Return ''<html>''
   \<and> errors (snd (performPyripEngineScrape
        (scripted [StillProcessingError, OtherError ''reset'', Status ''<html>''] 10
           :: (unit, string, string) world) () 10000)) = [''reset'']"
proof -
  let ?w = "scripted [OtherError ''reset'', StillProcessingError, Status ''<html>''] 10
              :: (unit, string, string) world"
  let ?w' = "scripted [StillProcessingError, OtherError ''reset'', Status ''<html>''] 10
              :: (unit, string, string) world"
  let ?h = "\<lparr> jobId = ''job-1'', processing = False \<rparr>"
  have h: "status one_glitch = None \<and> length (errors one_glitch) < 3
      \<and> \<not> 10000 < int (now one_glitch) - int 1000
      \<and> pyripEngineCheckStatus ?w ''job-1'' (polls one_glitch) = StillProcessingError"
    by (simp add: one_glitch_def scripted_def)
  have h': "pyripEngineScrape ?w' () = Inr ?h
      \<and> pyripEngineCheckStatus ?w' (jobId ?h) 0 = StillProcessingError
      \<and> pyripEngineCheckStatus ?w' (jobId ?h) 1 = OtherError ''reset''
      \<and> pyripEngineCheckStatus ?w' (jobId ?h) 2 = Status ''<html>''
      \<and> int (query_ms ?w' 0 + 250 + timer_lag ?w' 0
               + (query_ms ?w' 1 + 250 + timer_lag ?w' 1)) \<le> 10000"
    by (simp add: scripted_def)
  have q: "sleep ?w (query ?w ''job-1'' one_glitch) =
      \<lparr> now = 1520, errors = [''reset''], status = None, polls = 2,
        trace = [StatusQuery ''job-1'', Delay 250, StatusQuery ''job-1'', Delay 250] \<rparr>"
    by (simp add: sleep_def query_def one_glitch_def scripted_def)
  from still_processing_is_no_anomaly[of one_glitch 10000 1000 ?w "''job-1''" ?w' "()" ?h
      "''reset''" "''<html>''" 10000] h h'
  show ?thesis unfolding q by simp
qed

text \<open>
  C6 as stated fails on the exit with the status. The delay is the last statement of the
  loop body, outside the \<^verbatim>\<open>try\<close>: when the status query returns the status, the body still
  waits 250 ms, and only then the loop condition ends the loop. Here the first status query
  succeeds after 10 ms, and the attempt returns at 1260, not at 1010.
\<close>

theorem delay_after_success_counterexample:
  "performPyripEngineScrape (scripted [Status ''<html>''] 10 :: (unit, string, string) world)
      () 10000
     = (Return ''<html>'',
        \<lparr> now = 1260, errors = [], status = Some ''<html>'', polls = 1,
          trace = [StatusQuery ''job-1'', Delay 250] \<rparr>)"
  by code_simp

text \<open>
  C6, amended. Every status query is followed by the fixed delay of 250 ms, except the one
  that throws an \<^verbatim>\<open>EngineError\<close>: the events of an attempt are pairs of a status query and
  a delay, one pair per query, and a last pair that lacks its delay exactly when the
  attempt ends by rethrowing an \<^verbatim>\<open>EngineError\<close>. So two status queries are always a delay
  apart, the delay is taken after the query that returns the status as well, and no delay
  is taken on the exit with an \<^verbatim>\<open>EngineError\<close>. The exits on the error limit and on the
  timeout add no event. With a timeout that is not negative there is at least one pair.
\<close>

theorem delay_after_every_query_but_fatal:
  assumes "pyripEngineScrape w request = Inr h"
  shows "trace (snd (performPyripEngineScrape w request timeout)) =
           concat (replicate
             (polls (snd (performPyripEngineScrape w request timeout))
                - (if fatal (fst (performPyripEngineScrape w request timeout)) then 1 else 0))
             [StatusQuery (jobId h), Delay 250])
           @ (if fatal (fst (performPyripEngineScrape w request timeout))
              then [StatusQuery (jobId h)] else [])
       \<and> (0 \<le> timeout \<longrightarrow> 1 \<le> polls (snd (performPyripEngineScrape w request timeout)))"
proof -
  have r: "performPyripEngineScrape w request timeout
      = poll w (clock0 w) timeout (jobId h) (initial w)"
    using assms by (simp add: performPyripEngineScrape_def)
  have i: "trace (initial w) = []" "polls (initial w) = 0" by (simp_all add: initial_def)
  have "1 \<le> polls (snd (poll w (clock0 w) timeout (jobId h) (initial w)))" if "0 \<le> timeout"
    using poll_first_query[where startTime = "clock0 w" and timeout = timeout
        and s = "initial w" and w = w and job = "jobId h", OF polling_initial[OF that]] i
    by simp
  with poll_trace[of w "clock0 w" timeout "jobId h" "initial w"] i
  show ?thesis unfolding r by simp
qed

theorem delay_after_every_query_but_fatal_witness:
  "trace (snd (performPyripEngineScrape
       (scripted [StillProcessingError, Status ''<html>''] 10 :: (unit, string, string) world)
       () 10000))
     = [StatusQuery ''job-1'', Delay 250, StatusQuery ''job-1'', Delay 250]
   \<and> trace (snd (performPyripEngineScrape
       (scripted [StillProcessingError, EngineError ''render crashed''] 10
          :: (unit, string, string) world) () 10000))
     = [StatusQuery ''job-1'', Delay 250, StatusQuery ''job-1'']"
proof -
  let ?w = "scripted [StillProcessingError, Status ''<html>''] 10 :: (unit, string, string) world"
  let ?w' = "scripted [StillProcessingError, EngineError ''render crashed''] 10
               :: (unit, string, string) world"
  let ?h = "\<lparr> jobId = ''job-1'', processing = False \<rparr>"
  have d: "pyripEngineScrape ?w () = Inr ?h" by (simp add: scripted_def)
  have p: "polls (snd (performPyripEngineScrape ?w () 10000)) = 2"
    "fatal (fst (performPyripEngineScrape ?w () 10000)) = False"
    by code_simp+
  have "trace (snd (performPyripEngineScrape ?w' () 10000))
     = [StatusQuery ''job-1'', Delay 250, StatusQuery ''job-1'']"
    by code_simp
  with delay_after_every_query_but_fatal[OF d, of 10000] show ?thesis
    unfolding p by (simp add: numeral_2_eq_2)
qed

text \<open>
  C7 as stated fails when a screenshot format is requested: the synthesized screenshot
  action stands between the wait action and the caller's actions, and the pipeline for one
  caller action has length 3.
\<close>

theorem pipeline_length_counterexample:
  "opt_waitFor (meta_options shot_meta) \<noteq> 0
   \<and> opt_actions (meta_options shot_meta) = Some [OtherAction ''click #more'']
   \<and> chromeCDP_actions shot_meta = [Wait 500, Screenshot False, OtherAction ''click #more'']
   \<and> length (chromeCDP_actions shot_meta) \<noteq> length [OtherAction ''click #more''] + 1"
  by (simp add: chromeCDP_actions_def shot_meta_def)

text \<open>
  C7, amended. For a non-zero \<^verbatim>\<open>waitFor\<close> and \<open>N\<close> caller-supplied actions, the pipeline is
  the wait action, then the screenshot action if one of the two screenshot formats is
  requested, then the caller's actions in their order: its length is \<open>N + 1\<close> when no
  screenshot format is requested and \<open>N + 2\<close> when one is. The request carries this
  pipeline in its \<^verbatim>\<open>actions\<close> field.
\<close>

theorem pipeline_wait_first_user_last:
  assumes "opt_waitFor (meta_options m) \<noteq> 0"
  shows "chromeCDP_actions m =
           Wait (opt_waitFor (meta_options m))
           # (if ''screenshot'' \<in> set (opt_formats (meta_options m))
                 \<or> ''screenshot@fullPage'' \<in> set (opt_formats (meta_options m))
              then [Screenshot (''screenshot@fullPage'' \<in> set (opt_formats (meta_options m)))]
              else [])
           @ (case opt_actions (meta_options m) of None \<Rightarrow> [] | Some acts \<Rightarrow> acts)
       \<and> length (chromeCDP_actions m) =
           length (case opt_actions (meta_options m) of None \<Rightarrow> [] | Some acts \<Rightarrow> acts) + 1
           + (if ''screenshot'' \<in> set (opt_formats (meta_options m))
                 \<or> ''screenshot@fullPage'' \<in> set (opt_formats (meta_options m))
              then 1 else 0)
       \<and> actions (chromeCDP_request m prio) = Some (chromeCDP_actions m)"
  using assms by (simp add: chromeCDP_actions_def chromeCDP_request_def)

theorem pipeline_wait_first_user_last_witness:
  "opt_waitFor (meta_options wait_meta) \<noteq> 0
   \<and> chromeCDP_actions wait_meta = [Wait 500, OtherAction ''click #more'', Wait 100]
   \<and> length (chromeCDP_actions wait_meta) = 2 + 1
   \<and> actions (chromeCDP_request wait_meta None)
       = Some [Wait 500, OtherAction ''click #more'', Wait 100]"
proof -
  have h: "opt_waitFor (meta_options wait_meta) \<noteq> 0" by (simp add: wait_meta_def)
  have f: "opt_formats (meta_options wait_meta) = [''markdown'']"
    "opt_actions (meta_options wait_meta) = Some [OtherAction ''click #more'', Wait 100]"
    "opt_waitFor (meta_options wait_meta) = 500"
    by (simp_all add: wait_meta_def)
  from pipeline_wait_first_user_last[OF h, of None] show ?thesis
    unfolding f by simp
qed

text \<open>
  C8. When \<^verbatim>\<open>waitFor\<close> is zero, neither screenshot format is requested and the caller
  supplies no actions (none at all, or an empty list), the pipeline is empty and the
  request has no \<^verbatim>\<open>actions\<close> field, rather than an empty list.
\<close>

theorem empty_pipeline_omitted:
  assumes "opt_waitFor (meta_options m) = 0"
    and "''screenshot'' \<notin> set (opt_formats (meta_options m))"
    and "''screenshot@fullPage'' \<notin> set (opt_formats (meta_options m))"
    and "opt_actions (meta_options m) = None \<or> opt_actions (meta_options m) = Some []"
  shows "chromeCDP_actions m = [] \<and> actions (chromeCDP_request m prio) = None"
  using assms by (auto simp: chromeCDP_actions_def chromeCDP_request_def)

theorem empty_pipeline_omitted_witness:
  "chromeCDP_actions plain_meta = [] \<and> actions (chromeCDP_request plain_meta (Some 1)) = None"
proof -
  have "opt_waitFor (meta_options plain_meta) = 0"
    and "''screenshot'' \<notin> set (opt_formats (meta_options plain_meta))"
    and "''screenshot@fullPage'' \<notin> set (opt_formats (meta_options plain_meta))"
    and "opt_actions (meta_options plain_meta) = None
         \<or> opt_actions (meta_options plain_meta) = Some []"
    by (simp_all add: plain_meta_def)
  then show ?thesis by (rule empty_pipeline_omitted)
qed

text \<open>
  C9. Whatever the caller's options, the chrome-cdp request has \<^verbatim>\<open>instantReturn\<close> set, and
  set to true.
\<close>

theorem instantReturn_always_true:
  "instantReturn (chromeCDP_request m prio) = Some True"
  by (simp add: chromeCDP_request_def)

theorem instantReturn_always_true_witness:
  "instantReturn (chromeCDP_request shot_meta (Some 1)) = Some True"
  by (rule instantReturn_always_true)

text \<open>
  C10 as stated fails in its last part: nothing checks the sign of \<^verbatim>\<open>timeout\<close>, and with a
  negative one the first test of the timeout, \<^verbatim>\<open>0 > timeout\<close>, throws before any status
  query is issued. Here the dispatch answers with \<^verbatim>\<open>processing\<close> false, the status would be
  there at the first query, and the attempt ends with the \<^verbatim>\<open>TimeoutError\<close> and no event.
\<close>

theorem no_query_at_negative_timeout_counterexample:
  "performPyripEngineScrape (scripted [Status ''<html>''] 10 :: (unit, string, string) world)
      () (- 1)
     = (ThrowTimeoutError [] (- 1),
        \<lparr> now = 1000, errors = [], status = None, polls = 0, trace = [] \<rparr>)"
  by code_simp

text \<open>
  C10, amended. The \<^verbatim>\<open>processing\<close> flag of the dispatch response is never read: two
  environments that answer the dispatch with the same \<^verbatim>\<open>jobId\<close>, whatever the two flags,
  and agree otherwise, give the same outcome, the same status queries and delays and the
  same final state, for every timeout. For a timeout that is not negative, and whatever
  the flag, at least one status query is issued: the first event is a status query for
  that job.
\<close>

theorem processing_hint_ignored:
  assumes "pyripEngineScrape w1 request = Inr \<lparr> jobId = j, processing = b1 \<rparr>"
    and "pyripEngineScrape w2 request = Inr \<lparr> jobId = j, processing = b2 \<rparr>"
    and "pyripEngineCheckStatus w1 = pyripEngineCheckStatus w2"
    and "query_ms w1 = query_ms w2" and "timer_lag w1 = timer_lag w2"
    and "clock0 w1 = clock0 w2"
  shows "performPyripEngineScrape w1 request timeout = performPyripEngineScrape w2 request timeout
       \<and> (0 \<le> timeout \<longrightarrow>
            take 1 (trace (snd (performPyripEngineScrape w2 request timeout))) = [StatusQuery j]
            \<and> 1 \<le> polls (snd (performPyripEngineScrape w2 request timeout)))"
proof -
  have r1: "performPyripEngineScrape w1 request timeout
      = poll w1 (clock0 w1) timeout j (initial w1)"
    using assms(1) by (simp add: performPyripEngineScrape_def)
  have r2: "performPyripEngineScrape w2 request timeout
      = poll w2 (clock0 w2) timeout j (initial w2)"
    using assms(2) by (simp add: performPyripEngineScrape_def)
  have i: "initial w1 = initial w2" using assms(6) by (simp add: initial_def)
  have same: "performPyripEngineScrape w1 request timeout
      = performPyripEngineScrape w2 request timeout"
    unfolding r1 r2 i assms(6) by (rule poll_world_cong[OF assms(3,4,5)])
  let ?r = "poll w2 (clock0 w2) timeout j (initial w2)"
  have first: "take 1 (trace (snd ?r)) = [StatusQuery j] \<and> 1 \<le> polls (snd ?r)"
    if nonneg: "0 \<le> timeout"
  proof -
    have n: "1 \<le> polls (snd ?r)"
      using poll_first_query[where startTime = "clock0 w2" and timeout = timeout
          and s = "initial w2" and w = w2 and job = j, OF polling_initial[OF nonneg]]
      by (simp add: initial_def)
    have f: "polls (snd ?r) - (if fatal (fst ?r) then 1 else 0) = 0 \<Longrightarrow> fatal (fst ?r)"
      using n by (simp split: if_splits)
    have t: "trace (snd ?r) =
        concat (replicate (polls (snd ?r) - (if fatal (fst ?r) then 1 else 0))
                  [StatusQuery j, Delay 250])
        @ (if fatal (fst ?r) then [StatusQuery j] else [])"
      using poll_trace[of w2 "clock0 w2" timeout j "initial w2"] by (simp add: initial_def)
    have "take 1 (trace (snd ?r)) = [StatusQuery j]"
    proof (cases "polls (snd ?r) - (if fatal (fst ?r) then 1 else 0)")
      case 0
      with f t show ?thesis by simp
    next
      case (Suc k)
      with t show ?thesis by simp
    qed
    with n show ?thesis by simp
  qed
  from same first show ?thesis unfolding r2 by simp
qed

theorem processing_hint_ignored_witness:
  "performPyripEngineScrape
     ((scripted [StillProcessingError, Status ''<html>''] 10)
        \<lparr> pyripEngineScrape := \<lambda>_. Inr \<lparr> jobId = ''job-1'', processing = True \<rparr> \<rparr>
        :: (unit, string, string) world) () 10000
   = performPyripEngineScrape (scripted [StillProcessingError, Status ''<html>''] 10) () 10000
   \<and> (0::int) \<le> 10000
   \<and> take 1 (trace (snd (performPyripEngineScrape
        (scripted [StillProcessingError, Status ''<html>''] 10 :: (unit, string, string) world)
        () 10000))) = [StatusQuery ''job-1'']"
proof -
  let ?w2 = "scripted [StillProcessingError, Status ''<html>''] 10 :: (unit, string, string) world"
  let ?w1 = "?w2 \<lparr> pyripEngineScrape := \<lambda>_. Inr \<lparr> jobId = ''job-1'', processing = True \<rparr> \<rparr>"
  have "pyripEngineScrape ?w1 () = Inr \<lparr> jobId = ''job-1'', processing = True \<rparr>"
    and "pyripEngineScrape ?w2 () = Inr \<lparr> jobId = ''job-1'', processing = False \<rparr>"
    and "pyripEngineCheckStatus ?w1 = pyripEngineCheckStatus ?w2"
    and "query_ms ?w1 = query_ms ?w2" and "timer_lag ?w1 = timer_lag ?w2"
    and "clock0 ?w1 = clock0 ?w2"
    by (simp_all add: scripted_def)
  from processing_hint_ignored[OF this, of 10000] show ?thesis by simp
qed

end
